theory Spec2Isabelle
  imports Complex_Main
begin

section \<open>Data model\<close>

text \<open>
  The monitor of \<^verbatim>\<open>v8.py\<close> works on pandas tables of OHLCV bars. A table is
  modelled by its columns; a float64 value is a real number, and a table cell that
  may hold NaN is a \<open>real option\<close> with \<open>None\<close> for NaN. Rounding of the
  float64 arithmetic is not modelled.
\<close>

type_synonym cell = "real option"

record bar =
  Ts :: int
  Open :: real
  High :: real
  Low :: real
  Close :: real
  Volume :: real

text \<open>A row of the table after the indicator columns were added (\<^verbatim>\<open>df.iloc[k]\<close>).\<close>

record row = bar +
  EMA_F :: cell
  EMA_S :: cell
  RSI :: cell
  Vol_MA :: cell

text \<open>The table after lines 46 to 49: the fetched bars and the four new columns.\<close>

record frame =
  bars :: "bar list"
  col_EMA_F :: "cell list"
  col_EMA_S :: "cell list"
  col_RSI :: "cell list"
  col_Vol_MA :: "cell list"

text \<open>
  The dictionary \<^verbatim>\<open>info\<close> of lines 71 to 79. The keys \<^verbatim>\<open>res\<close> and
  \<^verbatim>\<open>sup\<close> carry the names of the variables they are filled from.
\<close>

record info =
  price :: real
  chg_pct :: cell
  rsi :: cell
  vol_ratio :: cell
  trend :: string
  res_1 :: real
  sup_1 :: real
  msg :: string
  level :: string

text \<open>The exceptions that can leave the functions modelled here.\<close>

datatype py_error = IndexError | TypeError

text \<open>What \<^verbatim>\<open>yf.download\<close> did: it raised, or it returned a table.\<close>

datatype download = Raised | Table "bar list"

section \<open>Float and table primitives\<close>

text \<open>Comparisons of float64 values: every ordered comparison with NaN is false,
  and \<^verbatim>\<open>!=\<close> with NaN is true.\<close>

definition cell_le :: "cell \<Rightarrow> cell \<Rightarrow> bool" where
  "cell_le a b = (case a of None \<Rightarrow> False | Some x \<Rightarrow> (case b of None \<Rightarrow> False | Some y \<Rightarrow> x \<le> y))"

definition cell_ge :: "cell \<Rightarrow> cell \<Rightarrow> bool" where
  "cell_ge a b = (case a of None \<Rightarrow> False | Some x \<Rightarrow> (case b of None \<Rightarrow> False | Some y \<Rightarrow> x \<ge> y))"

definition cell_gt :: "cell \<Rightarrow> cell \<Rightarrow> bool" where
  "cell_gt a b = (case a of None \<Rightarrow> False | Some x \<Rightarrow> (case b of None \<Rightarrow> False | Some y \<Rightarrow> x > y))"

definition cell_lt :: "cell \<Rightarrow> cell \<Rightarrow> bool" where
  "cell_lt a b = (case a of None \<Rightarrow> False | Some x \<Rightarrow> (case b of None \<Rightarrow> False | Some y \<Rightarrow> x < y))"

definition cell_ne0 :: "cell \<Rightarrow> bool" where
  "cell_ne0 a = (case a of None \<Rightarrow> True | Some x \<Rightarrow> x \<noteq> 0)"

text \<open>
  Division of numpy float64 scalars. A zero divisor raises nothing: numpy gives
  \<^verbatim>\<open>inf\<close>, \<^verbatim>\<open>-inf\<close> or \<^verbatim>\<open>nan\<close> and a RuntimeWarning. The model has
  no infinities, so \<open>None\<close> stands here for each of these non-finite results.
\<close>

definition np_div :: "real \<Rightarrow> real \<Rightarrow> cell" where
  "np_div a b = (if b = 0 then None else Some (a / b))"

definition cell_div :: "real \<Rightarrow> cell \<Rightarrow> cell" where
  "cell_div a b = (case b of None \<Rightarrow> None | Some y \<Rightarrow> np_div a y)"

definition cell_times :: "cell \<Rightarrow> real \<Rightarrow> cell" where
  "cell_times a k = (case a of None \<Rightarrow> None | Some x \<Rightarrow> Some (x * k))"

text \<open>Positional access \<^verbatim>\<open>.iloc[i]\<close> on a table of \<open>len\<close> rows: the positions
  \<open>0\<close> to \<open>len - 1\<close> count from the start, \<open>-1\<close> down to \<open>-len\<close> from the end, and
  any other position raises IndexError.\<close>

definition position :: "nat \<Rightarrow> int \<Rightarrow> nat option" where
  "position len i =
     (if 0 \<le> i \<and> i < int len then Some (nat i)
      else if i < 0 \<and> - int len \<le> i then Some (nat (int len + i))
      else None)"

definition iloc :: "'a list \<Rightarrow> int \<Rightarrow> py_error + 'a" where
  "iloc xs i = (case position (length xs) i of None \<Rightarrow> Inl IndexError | Some k \<Rightarrow> Inr (xs ! k))"

text \<open>A column assigned to the table is aligned on the index: a position the
  column does not cover holds NaN.\<close>

definition cell_at :: "cell list \<Rightarrow> nat \<Rightarrow> cell" where
  "cell_at col k = (if k < length col then col ! k else None)"

definition row_at :: "frame \<Rightarrow> nat \<Rightarrow> row" where
  "row_at fr k =
     \<lparr>Ts = Ts (bars fr ! k), Open = Open (bars fr ! k), High = High (bars fr ! k),
      Low = Low (bars fr ! k), Close = Close (bars fr ! k), Volume = Volume (bars fr ! k),
      EMA_F = cell_at (col_EMA_F fr) k, EMA_S = cell_at (col_EMA_S fr) k,
      RSI = cell_at (col_RSI fr) k, Vol_MA = cell_at (col_Vol_MA fr) k\<rparr>"

definition frame_iloc :: "frame \<Rightarrow> int \<Rightarrow> py_error + row" where
  "frame_iloc fr i =
     (case position (length (bars fr)) i of None \<Rightarrow> Inl IndexError | Some k \<Rightarrow> Inr (row_at fr k))"

section \<open>The indicator library\<close>

text \<open>The recurrence \<open>y' = (1 - a) * y + a * x\<close> of exponential smoothing, run over
  the values after the seed \<open>y\<close>.\<close>

fun ewm_mean :: "real \<Rightarrow> real \<Rightarrow> real list \<Rightarrow> real list" where
  "ewm_mean a y [] = []"
| "ewm_mean a y (x # xs) = ((1 - a) * y + a * x) # ewm_mean a ((1 - a) * y + a * x) xs"

text \<open>
  Modelled from the spec: \<^verbatim>\<open>ta.ema\<close> belongs to the pandas_ta package, which is
  not part of the repository. Section 4.1: the exponential-smoothing recurrence with
  smoothing factor \<open>2 / (length + 1)\<close>, the first \<open>length - 1\<close> values undefined,
  seeded by the simple average of the first \<open>length\<close> closes. Two cases that
  section 4.1 does not word follow the library the code calls: for a series shorter
  than the window it returns \<^verbatim>\<open>None\<close> in place of a column, and a window of 0
  stands for its default window of 10.
\<close>

definition ta_ema :: "real list \<Rightarrow> nat \<Rightarrow> cell list option" where
  "ta_ema closes n =
     (let w = (if n = 0 then 10 else n) in
      if length closes < w then None
      else Some (replicate (w - 1) None @
                 Some (sum_list (take w closes) / real w) #
                 map Some (ewm_mean (2 / (real w + 1)) (sum_list (take w closes) / real w)
                             (drop w closes))))"

text \<open>
  Modelled from the spec: \<^verbatim>\<open>ta.sma\<close> of pandas_ta. Section 4.1: the simple moving
  average over a trailing window, undefined until the window is full.
\<close>

definition ta_sma :: "real list \<Rightarrow> nat \<Rightarrow> cell list" where
  "ta_sma xs n =
     (if n = 0 then replicate (length xs) None
      else map (\<lambda>i. if i + 1 < n then None
                     else Some (sum_list (take n (drop (i + 1 - n) xs)) / real n))
               [0..<length xs])"

text \<open>The differences of consecutive closes.\<close>

fun deltas :: "real list \<Rightarrow> real list" where
  "deltas (x # y # ys) = (y - x) # deltas (y # ys)"
| "deltas _ = []"

text \<open>Wilder's smoothing of a series of gains or losses: the recurrence with factor
  \<open>1 / length\<close>, started at the first value.\<close>

definition rma :: "real list \<Rightarrow> nat \<Rightarrow> real list" where
  "rma vs n = (case vs of [] \<Rightarrow> [] | v # rest \<Rightarrow> v # ewm_mean (1 / real n) v rest)"

text \<open>The index from an average gain \<open>g\<close> and an average loss \<open>l\<close>. With no gain and
  no loss the quotient is \<open>0 / 0\<close>, which float64 arithmetic evaluates to NaN.\<close>

definition rsi_value :: "real \<Rightarrow> real \<Rightarrow> cell" where
  "rsi_value g l = cell_times (np_div g (g + l)) 100"

text \<open>
  Modelled from the spec: \<^verbatim>\<open>ta.rsi\<close> of pandas_ta. Section 4.1: Wilder's relative
  strength index over the deltas of the closes, with range 0 to 100, undefined until
  \<open>length\<close> deltas exist. The spec leaves the seed of the smoothing and the series
  without any price change open; the model starts the smoothing at the first delta
  and keeps the quotient \<open>0 / 0\<close> of a series without change undefined, as the
  spec's data model asks (undefined is no value, never zero).
\<close>

definition ta_rsi :: "real list \<Rightarrow> nat \<Rightarrow> cell list" where
  "ta_rsi closes n =
     (if n = 0 then replicate (length closes) None
      else replicate (min n (length closes)) None @
           drop (n - 1)
             (map2 rsi_value
                (rma (map (\<lambda>d. max d 0) (deltas closes)) n)
                (rma (map (\<lambda>d. max (- d) 0) (deltas closes)) n)))"

section \<open>The monitor\<close>

text \<open>Lines 22 to 32: an exception of the provider and an empty table both become
  \<^verbatim>\<open>None\<close>.\<close>

definition fetch_data :: "download \<Rightarrow> bar list option" where
  "fetch_data d = (case d of Raised \<Rightarrow> None | Table t \<Rightarrow> if t = [] then None else Some t)"

text \<open>Lines 34 to 39. The argument is what the provider did for the index symbol.\<close>

definition get_vix_status :: "download \<Rightarrow> py_error + real \<times> real" where
  "get_vix_status d =
     (case fetch_data d of
        None \<Rightarrow> Inr (20, 0)
      | Some vix \<Rightarrow>
          if length vix < 2 then Inr (20, 0)
          else (case iloc (map Close vix) (- 1) of
                  Inl e \<Rightarrow> Inl e
                | Inr curr_v \<Rightarrow>
                    (case iloc (map Close vix) (- 2) of
                       Inl e \<Rightarrow> Inl e
                     | Inr prev_v \<Rightarrow> Inr (curr_v, curr_v - prev_v))))"

text \<open>Lines 46 to 49 once both calls of \<^verbatim>\<open>ta.ema\<close> have returned a column: the
  table with its four float columns.\<close>

definition add_indicators :: "bar list \<Rightarrow> cell list \<Rightarrow> cell list \<Rightarrow> frame" where
  "add_indicators df fast slow =
     \<lparr>bars = df,
      col_EMA_F = fast,
      col_EMA_S = slow,
      col_RSI = ta_rsi (map Close df) 14,
      col_Vol_MA = ta_sma (map Volume df) 10\<rparr>"

text \<open>Line 58.\<close>

definition volume_ratio :: "row \<Rightarrow> cell" where
  "volume_ratio last_row =
     (if cell_ne0 (Vol_MA last_row) then cell_div (Volume last_row) (Vol_MA last_row) else Some 1)"

text \<open>The four messages of lines 63 to 69, as their UTF-8 bytes.\<close>

definition msg_monitoring :: string where
  "msg_monitoring = [CHR 0xE7, CHR 0x9B, CHR 0xA3, CHR 0xE6, CHR 0x8E, CHR 0xA7, CHR 0xE4, CHR 0xB8, CHR 0xAD]"

definition msg_golden_cross :: string where
  "msg_golden_cross =
     [CHR 0xE2, CHR 0x86, CHR 0x97, CHR 0xEF, CHR 0xB8, CHR 0x8F, CHR 0x20, CHR 0xE9, CHR 0xBB, CHR 0x83,
      CHR 0xE9, CHR 0x87, CHR 0x91, CHR 0xE4, CHR 0xBA, CHR 0xA4, CHR 0xE5, CHR 0x8F, CHR 0x89]"

definition msg_death_cross :: string where
  "msg_death_cross =
     [CHR 0xE2, CHR 0x86, CHR 0x98, CHR 0xEF, CHR 0xB8, CHR 0x8F, CHR 0x20, CHR 0xE6, CHR 0xAD, CHR 0xBB,
      CHR 0xE4, CHR 0xBA, CHR 0xA1, CHR 0xE4, CHR 0xBA, CHR 0xA4, CHR 0xE5, CHR 0x8F, CHR 0x89]"

definition msg_near_resistance :: string where
  "msg_near_resistance =
     [CHR 0xF0, CHR 0x9F, CHR 0xA7, CHR 0xB1, CHR 0x20, CHR 0xE6, CHR 0x8E, CHR 0xA5, CHR 0xE8, CHR 0xBF,
      CHR 0x91, CHR 0xE5, CHR 0xA3, CHR 0x93, CHR 0xE5, CHR 0x8A, CHR 0x9B]"

text \<open>The tests of lines 64 and 66 on the previous and the latest row.\<close>

definition golden_cross :: "row \<Rightarrow> row \<Rightarrow> bool" where
  "golden_cross prev_row last_row =
     (cell_le (EMA_F prev_row) (EMA_S prev_row) \<and> cell_gt (EMA_F last_row) (EMA_S last_row))"

definition death_cross :: "row \<Rightarrow> row \<Rightarrow> bool" where
  "death_cross prev_row last_row =
     (cell_ge (EMA_F prev_row) (EMA_S prev_row) \<and> cell_lt (EMA_F last_row) (EMA_S last_row))"

text \<open>Lines 63 to 69: the default, overwritten by the first branch of the
  \<^verbatim>\<open>if/elif\<close> chain whose test holds.\<close>

definition alert_signal :: "row \<Rightarrow> row \<Rightarrow> real \<Rightarrow> real \<Rightarrow> string \<times> string" where
  "alert_signal prev_row last_row close res1 =
     (if golden_cross prev_row last_row then (msg_golden_cross, ''error'')
      else if death_cross prev_row last_row then (msg_death_cross, ''error'')
      else if close \<ge> res1 * 0.998 then (msg_near_resistance, ''warning'')
      else (msg_monitoring, ''success''))"

text \<open>
  Lines 41 to 80. \<open>Inr None\<close> is the pair \<^verbatim>\<open>(None, None)\<close>, \<open>Inl\<close> an exception
  that leaves the function. Where \<^verbatim>\<open>ta.ema\<close> returned \<^verbatim>\<open>None\<close>, lines 46 and 47
  fill the column with \<^verbatim>\<open>None\<close>, and the first comparison of the two EMA cells, on
  line 59, raises TypeError: \<^verbatim>\<open>None\<close> is ordered neither with a float nor with
  \<^verbatim>\<open>None\<close>. Nothing between line 46 and line 59 raises on a table of 30 bars, so
  the model leaves with TypeError where the column is assigned.
\<close>

definition analyze_stock ::
  "bar list option \<Rightarrow> real \<Rightarrow> nat \<Rightarrow> nat \<Rightarrow> py_error + (frame \<times> info) option" where
  "analyze_stock df0 v_chg ema_f ema_s =
     (case df0 of
        None \<Rightarrow> Inr None
      | Some raw \<Rightarrow>
          if length raw < 30 then Inr None
          else
            (case ta_ema (map Close raw) ema_f of
               None \<Rightarrow> Inl TypeError
             | Some fast \<Rightarrow>
            (case ta_ema (map Close raw) ema_s of
               None \<Rightarrow> Inl TypeError
             | Some slow \<Rightarrow>
            (let df = add_indicators raw fast slow in
             case frame_iloc df (- 1) of
               Inl e \<Rightarrow> Inl e
             | Inr last_row \<Rightarrow>
                 (let high = High last_row; low = Low last_row; close = Close last_row;
                      pivot = (high + low + close) / 3;
                      res1 = 2 * pivot - low;
                      sup1 = 2 * pivot - high;
                      ratio = volume_ratio last_row;
                      trend_label = (if cell_gt (EMA_F last_row) (EMA_S last_row)
                                     then '' Bullish'' else '' Bearish'')
                  in case frame_iloc df (- 2) of
                       Inl e \<Rightarrow> Inl e
                     | Inr prev_row \<Rightarrow>
                         (let alert = alert_signal prev_row last_row close res1 in
                          case iloc (map Open (bars df)) (- 1) of
                            Inl e \<Rightarrow> Inl e
                          | Inr open_last \<Rightarrow>
                              Inr (Some (df,
                                \<lparr>price = close,
                                 chg_pct = cell_times (np_div (close - open_last) open_last) 100,
                                 rsi = RSI last_row,
                                 vol_ratio = ratio,
                                 trend = trend_label,
                                 res_1 = res1,
                                 sup_1 = sup1,
                                 msg = fst alert,
                                 level = snd alert\<rparr>))))))))"

text \<open>Lines 115 to 117 of the presentation: the level \<^verbatim>\<open>error\<close> is shown as an
  error box, \<^verbatim>\<open>warning\<close> as a warning box, anything else as a success box. These
  are the severities critical, caution and normal of the spec.\<close>

datatype severity = Critical | Caution | Normal

definition severity_of_level :: "string \<Rightarrow> severity" where
  "severity_of_level l = (if l = ''error'' then Critical else if l = ''warning'' then Caution else Normal)"

section \<open>The classification in the words of the spec\<close>

text \<open>Section 4.2 of the spec gives the alert as an ordered list of rules, each a
  condition with a label and a severity; the first rule whose condition holds wins,
  and the default applies when none does. This second definition follows those words
  and is compared with \<open>alert_signal\<close> below.\<close>

datatype alert_label = GoldenCross | DeathCross | NearResistance | Monitoring

fun first_match :: "(bool \<times> 'a) list \<Rightarrow> 'a \<Rightarrow> 'a" where
  "first_match [] d = d"
| "first_match ((c, x) # rules) d = (if c then x else first_match rules d)"

definition spec_alert :: "cell \<Rightarrow> cell \<Rightarrow> cell \<Rightarrow> cell \<Rightarrow> real \<Rightarrow> real \<Rightarrow> alert_label \<times> severity" where
  "spec_alert prev_fast prev_slow last_fast last_slow close r1 =
     first_match
       [(cell_le prev_fast prev_slow \<and> cell_gt last_fast last_slow, (GoldenCross, Critical)),
        (cell_ge prev_fast prev_slow \<and> cell_lt last_fast last_slow, (DeathCross, Critical)),
        (close \<ge> 0.998 * r1, (NearResistance, Caution))]
       (Monitoring, Normal)"

text \<open>The message the code shows for each label.\<close>

fun label_msg :: "alert_label \<Rightarrow> string" where
  "label_msg GoldenCross = msg_golden_cross"
| "label_msg DeathCross = msg_death_cross"
| "label_msg NearResistance = msg_near_resistance"
| "label_msg Monitoring = msg_monitoring"

section \<open>Sample series\<close>

text \<open>A series without any movement, one bar per time stamp, and the same series
  with a chosen latest bar.\<close>

definition flat_bar :: "nat \<Rightarrow> bar" where
  "flat_bar k = \<lparr>Ts = int k, Open = 100, High = 100, Low = 100, Close = 100, Volume = 1000\<rparr>"

definition flat_series :: "nat \<Rightarrow> bar list" where
  "flat_series n = map flat_bar [0..<n]"

definition series_ending :: "bar \<Rightarrow> bar list" where
  "series_ending b = flat_series 29 @ [b]"

text \<open>A series without any trade, as an index symbol has it.\<close>

definition silent_series :: "nat \<Rightarrow> bar list" where
  "silent_series n =
     map (\<lambda>k. \<lparr>Ts = int k, Open = 100, High = 100, Low = 100, Close = 100, Volume = 0\<rparr>) [0..<n]"

section \<open>Positional access on accepted tables\<close>

lemma position_last: "0 < len \<Longrightarrow> position len (- 1) = Some (len - 1)"
  by (simp add: position_def nat_diff_distrib')

lemma position_prev: "2 \<le> len \<Longrightarrow> position len (- 2) = Some (len - 2)"
  by (simp add: position_def nat_diff_distrib')

lemma iloc_last: "xs \<noteq> [] \<Longrightarrow> iloc xs (- 1) = Inr (last xs)"
  by (simp add: iloc_def position_last last_conv_nth)

lemma iloc_prev: "2 \<le> length xs \<Longrightarrow> iloc xs (- 2) = Inr (xs ! (length xs - 2))"
  by (simp add: iloc_def position_prev)

lemma frame_iloc_last:
  "0 < length (bars fr) \<Longrightarrow> frame_iloc fr (- 1) = Inr (row_at fr (length (bars fr) - 1))"
  by (simp add: frame_iloc_def position_last)

lemma frame_iloc_prev:
  "2 \<le> length (bars fr) \<Longrightarrow> frame_iloc fr (- 2) = Inr (row_at fr (length (bars fr) - 2))"
  by (simp add: frame_iloc_def position_prev)

lemma bars_add_indicators [simp]: "bars (add_indicators raw f s) = raw"
  by (simp add: add_indicators_def)

lemma row_at_bar [simp]:
  "High (row_at fr k) = High (bars fr ! k)" "Low (row_at fr k) = Low (bars fr ! k)"
  "Close (row_at fr k) = Close (bars fr ! k)" "Open (row_at fr k) = Open (bars fr ! k)"
  "Volume (row_at fr k) = Volume (bars fr ! k)" "Ts (row_at fr k) = Ts (bars fr ! k)"
  by (simp_all add: row_at_def)

lemma row_at_cells [simp]:
  "EMA_F (row_at fr k) = cell_at (col_EMA_F fr) k" "EMA_S (row_at fr k) = cell_at (col_EMA_S fr) k"
  "RSI (row_at fr k) = cell_at (col_RSI fr) k" "Vol_MA (row_at fr k) = cell_at (col_Vol_MA fr) k"
  by (simp_all add: row_at_def)

text \<open>On a table of at least 30 bars for which both calls of \<^verbatim>\<open>ta.ema\<close> return a
  column, no positional access fails, and the function returns the table with its
  indicator columns and the filled dictionary.\<close>

lemma analyze_stock_accepted:
  assumes "30 \<le> length raw"
    and "ta_ema (map Close raw) f = Some fast" and "ta_ema (map Close raw) s = Some slow"
  shows "analyze_stock (Some raw) v f s =
    Inr (Some (add_indicators raw fast slow,
      (let df = add_indicators raw fast slow;
           last_row = row_at df (length raw - 1);
           prev_row = row_at df (length raw - 2);
           close = Close (last raw); high = High (last raw); low = Low (last raw);
           res1 = 2 * ((high + low + close) / 3) - low
       in \<lparr>price = close,
           chg_pct = cell_times (np_div (close - Open (last raw)) (Open (last raw))) 100,
           rsi = RSI last_row,
           vol_ratio = volume_ratio last_row,
           trend = (if cell_gt (EMA_F last_row) (EMA_S last_row) then '' Bullish'' else '' Bearish''),
           res_1 = res1,
           sup_1 = 2 * ((high + low + close) / 3) - high,
           msg = fst (alert_signal prev_row last_row close res1),
           level = snd (alert_signal prev_row last_row close res1)\<rparr>)))"
proof -
  from assms(1) have ne: "raw \<noteq> []" by auto
  have l: "frame_iloc (add_indicators raw fast slow) (- 1) =
      Inr (row_at (add_indicators raw fast slow) (length raw - 1))"
    using ne frame_iloc_last [of "add_indicators raw fast slow"] by simp
  have p: "frame_iloc (add_indicators raw fast slow) (- 2) =
      Inr (row_at (add_indicators raw fast slow) (length raw - 2))"
    using assms(1) frame_iloc_prev [of "add_indicators raw fast slow"] by simp
  have o: "iloc (map Open raw) (- 1) = Inr (Open (last raw))"
    using ne iloc_last [of "map Open raw"] by (simp add: last_map)
  have b: "raw ! (length raw - Suc 0) = last raw"
    using ne by (simp add: last_conv_nth)
  show ?thesis
    using assms by (simp add: analyze_stock_def Let_def l p o b)
qed

text \<open>Where a call of \<^verbatim>\<open>ta.ema\<close> returns no column, the function raises.\<close>

lemma analyze_stock_no_column:
  assumes "30 \<le> length raw"
    and "ta_ema (map Close raw) f = None \<or> ta_ema (map Close raw) s = None"
  shows "analyze_stock (Some raw) v f s = Inl TypeError"
  using assms by (auto simp: analyze_stock_def split: option.splits)

section \<open>The indicator columns\<close>

lemma length_ewm_mean [simp]: "length (ewm_mean a y xs) = length xs"
  by (induction xs arbitrary: y) simp_all

lemma length_ta_ema: "ta_ema xs n = Some col \<Longrightarrow> length col = length xs"
  by (auto simp: ta_ema_def Let_def split: if_splits)

text \<open>A window no longer than the series has its column, a longer one has none.\<close>

lemma ta_ema_fits: "30 \<le> length xs \<Longrightarrow> n \<le> length xs \<Longrightarrow> \<exists>col. ta_ema xs n = Some col"
  by (simp add: ta_ema_def Let_def)

lemma ta_ema_None: "length xs < n \<Longrightarrow> ta_ema xs n = None"
  by (auto simp: ta_ema_def Let_def)

text \<open>The three outcomes of \<open>analyze_stock\<close> on a table: the pair \<^verbatim>\<open>(None, None)\<close>
  below 30 bars, TypeError when an EMA window is longer than the table, and the
  table with its dictionary otherwise.\<close>

lemma analyze_stock_outcomes:
  "(length df < 30 \<longrightarrow> analyze_stock (Some df) v f s = Inr None)
   \<and> (30 \<le> length df \<and> (length df < f \<or> length df < s) \<longrightarrow> analyze_stock (Some df) v f s = Inl TypeError)
   \<and> (30 \<le> length df \<and> f \<le> length df \<and> s \<le> length df \<longrightarrow>
        (\<exists>fr i. analyze_stock (Some df) v f s = Inr (Some (fr, i))))"
proof (intro conjI impI)
  assume "length df < 30"
  then show "analyze_stock (Some df) v f s = Inr None" by (simp add: analyze_stock_def)
next
  assume a: "30 \<le> length df \<and> (length df < f \<or> length df < s)"
  then have "ta_ema (map Close df) f = None \<or> ta_ema (map Close df) s = None"
    using ta_ema_None [of "map Close df" f] ta_ema_None [of "map Close df" s] by auto
  with a show "analyze_stock (Some df) v f s = Inl TypeError"
    using analyze_stock_no_column by blast
next
  assume a: "30 \<le> length df \<and> f \<le> length df \<and> s \<le> length df"
  from ta_ema_fits [of "map Close df" f] a obtain fast where fast: "ta_ema (map Close df) f = Some fast"
    by auto
  from ta_ema_fits [of "map Close df" s] a obtain slow where slow: "ta_ema (map Close df) s = Some slow"
    by auto
  from a have len: "30 \<le> length df" by simp
  show "\<exists>fr i. analyze_stock (Some df) v f s = Inr (Some (fr, i))"
    using analyze_stock_accepted [OF len fast slow, of v] by blast
qed

lemma length_ta_sma [simp]: "length (ta_sma xs n) = length xs"
  by (simp add: ta_sma_def)

lemma length_deltas [simp]: "length (deltas xs) = length xs - 1"
  by (induction xs rule: deltas.induct) simp_all

lemma length_rma [simp]: "length (rma vs n) = length vs"
  by (simp add: rma_def split: list.splits)

lemma length_ta_rsi [simp]: "length (ta_rsi xs n) = length xs"
  by (auto simp: ta_rsi_def)

text \<open>The moving average at the latest bar is the mean of the last \<open>n\<close> values.\<close>

lemma ta_sma_last:
  assumes "0 < n" "n \<le> length xs"
  shows "cell_at (ta_sma xs n) (length xs - 1) = Some (sum_list (drop (length xs - n) xs) / real n)"
proof -
  from assms have k: "length xs - 1 < length xs" "Suc (length xs - 1) = length xs" by arith+
  have "ta_sma xs n ! (length xs - 1) = Some (sum_list (take n (drop (length xs - n) xs)) / real n)"
    using assms k by (simp add: ta_sma_def del: One_nat_def)
  then show ?thesis
    using k by (simp add: cell_at_def del: One_nat_def)
qed

text \<open>The index at the latest bar comes from the last smoothed gain and loss.\<close>

lemma ta_rsi_last:
  assumes "0 < n" "n < length xs"
  shows "cell_at (ta_rsi xs n) (length xs - 1) =
     rsi_value (last (rma (map (\<lambda>d. max d 0) (deltas xs)) n))
               (last (rma (map (\<lambda>d. max (- d) 0) (deltas xs)) n))"
proof -
  let ?G = "rma (map (\<lambda>d. max d 0) (deltas xs)) n"
  let ?L = "rma (map (\<lambda>d. max (- d) 0) (deltas xs)) n"
  let ?z = "map2 rsi_value ?G ?L"
  have len: "length ?z = length xs - 1" by simp
  from assms have i: "n - 1 + (length xs - 1 - n) = length xs - 2" by arith
  from assms have two: "length xs - 1 - 1 = length xs - 2" by arith
  from assms have k: "\<not> length xs - 1 < n" "min n (length xs) = n" by arith+
  from assms have Gne: "?G \<noteq> []" and Lne: "?L \<noteq> []" by (simp_all flip: length_0_conv)
  from assms have "ta_rsi xs n ! (length xs - 1) = drop (n - 1) ?z ! (length xs - 1 - n)"
    using k by (simp add: ta_rsi_def nth_append del: One_nat_def)
  also have "\<dots> = ?z ! (length xs - 2)"
    using assms i len by (simp del: One_nat_def length_map length_zip)
  also have "\<dots> = rsi_value (?G ! (length xs - 2)) (?L ! (length xs - 2))"
    using assms by simp
  also have "?G ! (length xs - 2) = last ?G"
    using last_conv_nth [OF Gne] two by (simp del: One_nat_def)
  also have "?L ! (length xs - 2) = last ?L"
    using last_conv_nth [OF Lne] two by (simp del: One_nat_def)
  finally have "ta_rsi xs n ! (length xs - 1) = rsi_value (last ?G) (last ?L)" .
  moreover from assms have "length xs - 1 < length xs" by arith
  ultimately show ?thesis
    by (simp add: cell_at_def del: One_nat_def)
qed

lemma ewm_mean_nonneg:
  "0 \<le> a \<Longrightarrow> a \<le> 1 \<Longrightarrow> 0 \<le> y \<Longrightarrow> list_all (\<lambda>x. 0 \<le> x) xs \<Longrightarrow> list_all (\<lambda>x. 0 \<le> x) (ewm_mean a y xs)"
  by (induction xs arbitrary: y) simp_all

lemma rma_nonneg:
  "0 < n \<Longrightarrow> list_all (\<lambda>x. 0 \<le> x) vs \<Longrightarrow> list_all (\<lambda>x. 0 \<le> x) (rma vs n)"
  by (cases vs) (simp_all add: rma_def ewm_mean_nonneg)

lemma rsi_value_range:
  assumes "0 \<le> g" "0 \<le> l" "rsi_value g l = Some r"
  shows "0 \<le> r \<and> r \<le> 100"
proof -
  from assms(3) have nz: "g + l \<noteq> 0" and r: "r = g / (g + l) * 100"
    by (auto simp: rsi_value_def np_div_def cell_times_def split: if_splits)
  from nz assms have pos: "0 < g + l" by linarith
  define q where "q = g / (g + l)"
  have "q \<le> 1" using pos assms by (simp add: q_def pos_divide_le_eq)
  moreover have "0 \<le> q" using pos assms by (simp add: q_def)
  moreover have "r = q * 100" using r by (simp add: q_def)
  ultimately show ?thesis by simp
qed

text \<open>A smoothed series of non-negative values ends at zero only if every value
  is zero: each value keeps a positive weight.\<close>

lemma ewm_mean_last_zero:
  assumes "0 < a" "a < 1" "0 \<le> y" "list_all (\<lambda>x. 0 \<le> x) xs"
  shows "last (y # ewm_mean a y xs) = 0 \<longleftrightarrow> y = 0 \<and> list_all (\<lambda>x. x = 0) xs"
  using assms(3,4)
proof (induction xs arbitrary: y)
  case Nil
  then show ?case by simp
next
  case (Cons x xs)
  let ?y' = "(1 - a) * y + a * x"
  from Cons.prems have x: "0 \<le> x" and rest: "list_all (\<lambda>x. 0 \<le> x) xs" by simp_all
  from assms(1,2) Cons.prems(1) x have p1: "0 \<le> (1 - a) * y" and p2: "0 \<le> a * x" by simp_all
  then have y': "0 \<le> ?y'" by linarith
  have z: "?y' = 0 \<longleftrightarrow> y = 0 \<and> x = 0"
    using p1 p2 assms(1,2) by (simp add: add_nonneg_eq_0_iff)
  have "last (y # ewm_mean a y (x # xs)) = last (?y' # ewm_mean a ?y' xs)" by simp
  also have "\<dots> = 0 \<longleftrightarrow> ?y' = 0 \<and> list_all (\<lambda>x. x = 0) xs"
    using Cons.IH [OF y' rest] .
  finally show ?case using z by auto
qed

lemma rma_last_zero:
  assumes "1 < n" "vs \<noteq> []" "list_all (\<lambda>x. 0 \<le> x) vs"
  shows "last (rma vs n) = 0 \<longleftrightarrow> list_all (\<lambda>x. x = 0) vs"
proof -
  from assms(2) obtain v rest where vs: "vs = v # rest" by (cases vs) auto
  from assms(1) have a: "0 < 1 / real n" "1 / real n < 1" by simp_all
  show ?thesis
    using ewm_mean_last_zero [OF a, of v rest] assms(3) by (simp add: vs rma_def)
qed

lemma deltas_zero_iff: "list_all (\<lambda>d. d = 0) (deltas xs) \<longleftrightarrow> (\<forall>x\<in>set xs. x = hd xs)"
  by (induction xs rule: deltas.induct) auto

lemma rsi_value_None_iff:
  assumes "0 \<le> g" "0 \<le> l"
  shows "rsi_value g l = None \<longleftrightarrow> g = 0 \<and> l = 0"
  using assms by (auto simp: rsi_value_def np_div_def cell_times_def add_nonneg_eq_0_iff)

lemma gains_losses_zero:
  "list_all (\<lambda>x. x = 0) (map (\<lambda>d. max d 0) ds) \<and> list_all (\<lambda>x. x = 0) (map (\<lambda>d. max (- d) 0) ds)
     \<longleftrightarrow> list_all (\<lambda>d. d = (0::real)) ds"
  by (induction ds) (auto simp: max_def split: if_splits)

lemma last_in_list_all: "xs \<noteq> [] \<Longrightarrow> list_all P xs \<Longrightarrow> P (last xs)"
  by (simp add: list_all_iff)

text \<open>The index at the latest bar: undefined exactly on a series whose values are
  all equal, and between 0 and 100 otherwise.\<close>

lemma ta_rsi_last_cases:
  assumes "1 < n" "n < length xs"
  shows "if (\<forall>x\<in>set xs. x = hd xs) then cell_at (ta_rsi xs n) (length xs - 1) = None
         else (\<exists>r. cell_at (ta_rsi xs n) (length xs - 1) = Some r \<and> 0 \<le> r \<and> r \<le> 100)"
proof -
  let ?gs = "map (\<lambda>d. max d 0) (deltas xs)"
  let ?ls = "map (\<lambda>d. max (- d) 0) (deltas xs)"
  let ?g = "last (rma ?gs n)"
  let ?l = "last (rma ?ls n)"
  from assms have n0: "0 < n" by simp
  from assms have ne: "?gs \<noteq> []" "?ls \<noteq> []" by (simp_all flip: length_0_conv)
  have nn: "list_all (\<lambda>x. 0 \<le> x) ?gs" "list_all (\<lambda>x. 0 \<le> x) ?ls"
    by (simp_all add: list_all_iff)
  have rne: "rma ?gs n \<noteq> []" "rma ?ls n \<noteq> []"
    using ne by (simp_all flip: length_0_conv)
  have g: "0 \<le> ?g" using last_in_list_all [OF rne(1) rma_nonneg [OF n0 nn(1)]] .
  have l: "0 \<le> ?l" using last_in_list_all [OF rne(2) rma_nonneg [OF n0 nn(2)]] .
  have c: "cell_at (ta_rsi xs n) (length xs - 1) = rsi_value ?g ?l"
    using ta_rsi_last [OF n0 assms(2)] .
  have "rsi_value ?g ?l = None \<longleftrightarrow> ?g = 0 \<and> ?l = 0"
    using rsi_value_None_iff [OF g l] .
  also have "\<dots> \<longleftrightarrow> list_all (\<lambda>x. x = 0) ?gs \<and> list_all (\<lambda>x. x = 0) ?ls"
    using rma_last_zero [OF assms(1) ne(1) nn(1)] rma_last_zero [OF assms(1) ne(2) nn(2)] by simp
  also have "\<dots> \<longleftrightarrow> list_all (\<lambda>d. d = 0) (deltas xs)"
    by (rule gains_losses_zero)
  also have "\<dots> \<longleftrightarrow> (\<forall>x\<in>set xs. x = hd xs)"
    by (rule deltas_zero_iff)
  finally have flat: "rsi_value ?g ?l = None \<longleftrightarrow> (\<forall>x\<in>set xs. x = hd xs)" .
  show ?thesis
  proof (cases "\<forall>x\<in>set xs. x = hd xs")
    case True
    then show ?thesis using flat c by simp
  next
    case False
    then obtain r where r: "rsi_value ?g ?l = Some r" using flat by auto
    from rsi_value_range [OF g l r] r c False show ?thesis by simp
  qed
qed

text \<open>Line 58 on an accepted table: the moving average of the volume is defined at
  the latest bar, so the ratio is the quotient or, for a zero average, one.\<close>

lemma volume_ratio_last:
  assumes "30 \<le> length raw"
  shows "volume_ratio (row_at (add_indicators raw f s) (length raw - 1)) =
     (if sum_list (map Volume (drop (length raw - 10) raw)) / 10 = 0 then Some 1
      else Some (Volume (last raw) / (sum_list (map Volume (drop (length raw - 10) raw)) / 10)))"
proof -
  from assms have ne: "raw \<noteq> []" by auto
  have ma: "cell_at (ta_sma (map Volume raw) 10) (length raw - 1) =
      Some (sum_list (map Volume (drop (length raw - 10) raw)) / 10)"
    using assms ta_sma_last [of 10 "map Volume raw"] by (simp add: drop_map)
  have b: "raw ! (length raw - 1) = last raw"
    using ne by (simp add: last_conv_nth)
  show ?thesis
    using ma b by (simp add: volume_ratio_def add_indicators_def cell_ne0_def cell_div_def np_div_def del: One_nat_def)
qed

section \<open>The sample series\<close>

lemma length_flat_series [simp]: "length (flat_series n) = n"
  by (simp add: flat_series_def)

lemma length_series_ending [simp]: "length (series_ending b) = 30"
  by (simp add: series_ending_def)

lemma last_series_ending [simp]: "last (series_ending b) = b"
  by (simp add: series_ending_def)

lemma hd_series_ending [simp]: "hd (series_ending b) = flat_bar 0"
  by (simp add: series_ending_def flat_series_def upt_rec)

lemma set_series_ending: "set (series_ending b) = insert b (set (flat_series 29))"
  by (simp add: series_ending_def)

lemma last_flat_series: "0 < n \<Longrightarrow> last (flat_series n) = flat_bar (n - 1)"
  by (simp add: flat_series_def last_map)

lemma flat_series_closes: "b \<in> set (flat_series n) \<Longrightarrow> Close b = 100"
  by (auto simp: flat_series_def flat_bar_def)

lemma length_silent_series [simp]: "length (silent_series n) = n"
  by (simp add: silent_series_def)

lemma map_Close_flat_series [simp]: "map Close (flat_series n) = replicate n 100"
  by (simp add: flat_series_def comp_def flat_bar_def map_replicate_const)

lemma map_Volume_flat_series [simp]: "map Volume (flat_series n) = replicate n 1000"
  by (simp add: flat_series_def comp_def flat_bar_def map_replicate_const)

lemma flat_series_volumes: "list_all (\<lambda>b. 0 \<le> Volume b) (flat_series n)"
  by (simp add: flat_series_def flat_bar_def list_all_iff)

lemma flat_series_sorted: "sorted_wrt (<) (map Ts (flat_series n))"
  by (simp add: flat_series_def flat_bar_def comp_def sorted_wrt_map)

lemma flat_series_stamps: "b \<in> set (flat_series n) \<Longrightarrow> Ts b < int n"
  by (auto simp: flat_series_def flat_bar_def)

lemma sorted_series_ending: "28 < Ts b \<Longrightarrow> sorted_wrt (<) (map Ts (series_ending b))"
  using flat_series_sorted [of 29] flat_series_stamps [of _ 29]
  by (fastforce simp: series_ending_def sorted_wrt_append)

lemma volume_sum_series_ending:
  "sum_list (map Volume (drop 20 (series_ending b))) = 9000 + Volume b"
  by (simp add: series_ending_def sum_list_replicate flip: drop_map)

lemma volume_sum_silent_series:
  "sum_list (map Volume (drop 20 (silent_series 30))) = 0"
  by (simp add: silent_series_def comp_def map_replicate_const sum_list_replicate flip: drop_map)

text \<open>Smoothing a constant series leaves it constant, and smoothing runs on from
  the last value reached.\<close>

lemma ewm_mean_replicate: "ewm_mean a y (replicate k y) = replicate k y"
  by (induction k) (simp_all add: algebra_simps)

lemma ewm_mean_append:
  "ewm_mean a y (xs @ zs) = ewm_mean a y xs @ ewm_mean a (last (y # ewm_mean a y xs)) zs"
  by (induction xs arbitrary: y) simp_all

lemma ta_ema_series_ending:
  assumes "0 < n" "n \<le> 29"
  shows "ta_ema (map Close (series_ending b)) n =
     Some (replicate (n - 1) None @ replicate (30 - n) (Some 100) @
           [Some ((1 - 2 / (real n + 1)) * 100 + 2 / (real n + 1) * Close b)])"
proof -
  have t: "take n (replicate 29 (100::real)) = replicate n 100"
    using assms by (simp add: min_def)
  have d: "drop n (replicate 29 (100::real) @ [Close b]) = replicate (29 - n) 100 @ [Close b]"
    using assms by simp
  have s: "sum_list (replicate n (100::real)) / real n = 100"
    using assms by (simp add: sum_list_replicate)
  have r: "Some (100::real) # replicate (29 - n) (Some 100) = replicate (30 - n) (Some 100)"
    using assms by (simp add: Suc_diff_le flip: replicate_Suc)
  show ?thesis
    using assms
    by (simp add: ta_ema_def Let_def series_ending_def t d s ewm_mean_append ewm_mean_replicate
          r [symmetric] del: replicate_Suc)
qed

lemma ema_prev_series_ending:
  assumes "0 < n" "n \<le> 29" "ta_ema (map Close (series_ending b)) n = Some col"
  shows "cell_at col 28 = Some 100"
  using assms by (auto simp: ta_ema_series_ending cell_at_def nth_append)

lemma ema_last_series_ending:
  assumes "0 < n" "n \<le> 29" "ta_ema (map Close (series_ending b)) n = Some col"
  shows "cell_at col 29 = Some ((1 - 2 / (real n + 1)) * 100 + 2 / (real n + 1) * Close b)"
  using assms by (auto simp: ta_ema_series_ending cell_at_def nth_append)

text \<open>The EMA of a constant series: undefined before the window is full, the
  constant from then on, and no column when the window is longer than the series.\<close>

lemma ta_ema_flat:
  assumes "0 < n" "n \<le> m"
  shows "ta_ema (replicate m c) n = Some (replicate (n - 1) None @ replicate (Suc (m - n)) (Some c))"
proof -
  have t: "take n (replicate m c) = replicate n c"
    using assms by (simp add: min_def)
  have s: "sum_list (replicate n c) / real n = c"
    using assms by (simp add: sum_list_replicate)
  show ?thesis
    using assms by (simp add: ta_ema_def Let_def t s ewm_mean_replicate)
qed

lemma ta_ema_too_short: "m < n \<Longrightarrow> ta_ema (replicate m c) n = None"
  by (auto simp: ta_ema_def Let_def)

section \<open>Absent and short series\<close>

text \<open>
  C10. Called with \<^verbatim>\<open>None\<close> in place of a table, as it is when the provider raised
  or returned an empty table, \<open>analyze_stock\<close> returns the pair \<^verbatim>\<open>(None, None)\<close>
  and raises nothing.
\<close>

theorem analyze_stock_absent_series:
  "analyze_stock None v_chg ema_f ema_s = Inr None
   \<and> analyze_stock (fetch_data Raised) v_chg ema_f ema_s = Inr None
   \<and> analyze_stock (fetch_data (Table [])) v_chg ema_f ema_s = Inr None"
  by (simp add: analyze_stock_def fetch_data_def)

theorem analyze_stock_absent_series_witness:
  "analyze_stock None 0 9 21 = Inr None
   \<and> analyze_stock (fetch_data Raised) 0 9 21 = Inr None
   \<and> analyze_stock (fetch_data (Table [])) 0 9 21 = Inr None"
  using analyze_stock_absent_series [of 0 9 21] .

text \<open>
  C2. On every table of fewer than 30 bars, the empty one included,
  \<open>analyze_stock\<close> returns the pair \<^verbatim>\<open>(None, None)\<close>: it raises nothing and builds
  no dictionary.
\<close>

theorem analyze_stock_short_series:
  "length df < 30 \<Longrightarrow> analyze_stock (Some df) v_chg ema_f ema_s = Inr None"
  by (simp add: analyze_stock_def)

theorem analyze_stock_short_series_witness:
  "length ([] :: bar list) < 30 \<and> analyze_stock (Some []) 0 9 21 = Inr None
   \<and> length (flat_series 29) < 30 \<and> analyze_stock (Some (flat_series 29)) 0 9 21 = Inr None"
  using analyze_stock_short_series [of "[]" 0 9 21]
    analyze_stock_short_series [of "flat_series 29" 0 9 21]
  by simp

section \<open>The alert\<close>

text \<open>The chain of line 63 to 69 and the ordered rules of the spec give the same
  message and severity on every pair of rows.\<close>

lemma alert_signal_spec:
  "alert_signal prev_row last_row close r1 = (m, l) \<Longrightarrow>
   (m, severity_of_level l) =
     (label_msg (fst (spec_alert (EMA_F prev_row) (EMA_S prev_row) (EMA_F last_row) (EMA_S last_row) close r1)),
      snd (spec_alert (EMA_F prev_row) (EMA_S prev_row) (EMA_F last_row) (EMA_S last_row) close r1))"
  by (auto simp: alert_signal_def spec_alert_def golden_cross_def death_cross_def severity_of_level_def
        mult.commute split: if_splits)

text \<open>The four messages differ, so a message names its rule.\<close>

lemma label_msg_inj: "inj label_msg"
proof (rule injI)
  fix a b assume "label_msg a = label_msg b"
  then show "a = b"
    by (cases a; cases b)
       (simp_all add: msg_golden_cross_def msg_death_cross_def msg_near_resistance_def msg_monitoring_def)
qed

text \<open>
  C1. On every table of at least 30 bars that is no shorter than either EMA window,
  which are the tables \<open>analyze_stock\<close> builds a dictionary for, it returns a dictionary whose message and severity are those of the
  first rule that holds, in the order golden cross (critical), death cross
  (critical), near resistance (caution), and of the monitoring default (normal) when
  none holds. The rules read the fast and slow EMA columns of the returned table at
  the previous and the latest bar, the latest close and the resistance R1. On a
  table shorter than an EMA window the function raises; that is the matter of C3.
\<close>

theorem analyze_stock_alert_priority:
  assumes "30 \<le> length df" and "ema_f \<le> length df" and "ema_s \<le> length df"
  shows "\<exists>fr i. analyze_stock (Some df) v_chg ema_f ema_s = Inr (Some (fr, i))
     \<and> ta_ema (map Close df) ema_f = Some (col_EMA_F fr)
     \<and> ta_ema (map Close df) ema_s = Some (col_EMA_S fr)
     \<and> (msg i, severity_of_level (level i)) =
       (let n = length df;
            high = High (last df); low = Low (last df); close = Close (last df);
            r1 = 2 * ((high + low + close) / 3) - low;
            verdict = spec_alert (cell_at (col_EMA_F fr) (n - 2)) (cell_at (col_EMA_S fr) (n - 2))
                                 (cell_at (col_EMA_F fr) (n - 1)) (cell_at (col_EMA_S fr) (n - 1))
                                 close r1
        in (label_msg (fst verdict), snd verdict))"
proof -
  from ta_ema_fits [of "map Close df" ema_f] assms(1,2)
  obtain fast where fast: "ta_ema (map Close df) ema_f = Some fast" by auto
  from ta_ema_fits [of "map Close df" ema_s] assms(1,3)
  obtain slow where slow: "ta_ema (map Close df) ema_s = Some slow" by auto
  let ?df = "add_indicators df fast slow"
  let ?last = "row_at ?df (length df - 1)"
  let ?prev = "row_at ?df (length df - 2)"
  let ?close = "Close (last df)"
  let ?r1 = "2 * ((High (last df) + Low (last df) + Close (last df)) / 3) - Low (last df)"
  obtain m l where ml: "alert_signal ?prev ?last ?close ?r1 = (m, l)"
    by (cases "alert_signal ?prev ?last ?close ?r1") auto
  have cols: "col_EMA_F ?df = fast" "col_EMA_S ?df = slow"
    by (simp_all add: add_indicators_def)
  from alert_signal_spec [OF ml] show ?thesis
    using analyze_stock_accepted [OF assms(1) fast slow, of v_chg] ml fast slow
    by (simp add: Let_def cols del: One_nat_def)
qed

text \<open>A flat series that gaps up at the latest bar: the fast EMA crosses above the
  slow one and the close is also at the resistance; the golden cross wins.\<close>

theorem analyze_stock_alert_priority_witness:
  "30 \<le> length (series_ending \<lparr>Ts = 29, Open = 110, High = 110, Low = 110, Close = 110, Volume = 1000\<rparr>)
   \<and> 9 \<le> length (series_ending \<lparr>Ts = 29, Open = 110, High = 110, Low = 110, Close = 110, Volume = 1000\<rparr>)
   \<and> 21 \<le> length (series_ending \<lparr>Ts = 29, Open = 110, High = 110, Low = 110, Close = 110, Volume = 1000\<rparr>)
   \<and> (\<exists>fr i. analyze_stock
         (Some (series_ending \<lparr>Ts = 29, Open = 110, High = 110, Low = 110, Close = 110, Volume = 1000\<rparr>))
         0 9 21 = Inr (Some (fr, i))
       \<and> cell_at (col_EMA_F fr) 28 = Some 100 \<and> cell_at (col_EMA_S fr) 28 = Some 100
       \<and> cell_at (col_EMA_F fr) 29 = Some 102 \<and> cell_at (col_EMA_S fr) 29 = Some (1110 / 11)
       \<and> msg i = msg_golden_cross \<and> severity_of_level (level i) = Critical)"
proof -
  let ?s = "series_ending \<lparr>Ts = 29, Open = 110, High = 110, Low = 110, Close = 110, Volume = 1000\<rparr>"
  have len: "30 \<le> length ?s" "9 \<le> length ?s" "21 \<le> length ?s" by simp_all
  from analyze_stock_alert_priority [OF len, of 0]
  obtain fr i where run: "analyze_stock (Some ?s) 0 9 21 = Inr (Some (fr, i))"
    and fast: "ta_ema (map Close ?s) 9 = Some (col_EMA_F fr)"
    and slow: "ta_ema (map Close ?s) 21 = Some (col_EMA_S fr)"
    and verdict: "(msg i, severity_of_level (level i)) =
       (let n = length ?s;
            high = High (last ?s); low = Low (last ?s); close = Close (last ?s);
            r1 = 2 * ((high + low + close) / 3) - low;
            verdict = spec_alert (cell_at (col_EMA_F fr) (n - 2)) (cell_at (col_EMA_S fr) (n - 2))
                                 (cell_at (col_EMA_F fr) (n - 1)) (cell_at (col_EMA_S fr) (n - 1))
                                 close r1
        in (label_msg (fst verdict), snd verdict))"
    by blast
  have cells: "cell_at (col_EMA_F fr) 28 = Some 100" "cell_at (col_EMA_S fr) 28 = Some 100"
    "cell_at (col_EMA_F fr) 29 = Some 102" "cell_at (col_EMA_S fr) 29 = Some (1110 / 11)"
    using ema_prev_series_ending [OF _ _ fast] ema_prev_series_ending [OF _ _ slow]
      ema_last_series_ending [OF _ _ fast] ema_last_series_ending [OF _ _ slow]
    by simp_all
  have "msg i = msg_golden_cross \<and> severity_of_level (level i) = Critical"
    using verdict by (simp add: cells spec_alert_def cell_le_def cell_gt_def)
  with run cells len show ?thesis by blast
qed

text \<open>
  C5. The test of the golden cross and the test of the death cross never hold
  together, on any pair of rows and so on the rows of any table: the first needs
  the latest fast EMA above the slow one, the second needs it below.
\<close>

theorem crossover_exclusive:
  "\<not> (golden_cross prev_row last_row \<and> death_cross prev_row last_row)"
  by (auto simp: golden_cross_def death_cross_def cell_gt_def cell_lt_def split: option.splits)

text \<open>The rows of a golden cross: the test of the death cross fails on them.\<close>

theorem crossover_exclusive_witness:
  "golden_cross
     \<lparr>Ts = 28, Open = 100, High = 100, Low = 100, Close = 100, Volume = 1000,
      EMA_F = Some 100, EMA_S = Some 100, RSI = None, Vol_MA = Some 1000\<rparr>
     \<lparr>Ts = 29, Open = 110, High = 110, Low = 110, Close = 110, Volume = 1000,
      EMA_F = Some 102, EMA_S = Some (1110 / 11), RSI = Some 100, Vol_MA = Some 1000\<rparr>
   \<and> \<not> death_cross
     \<lparr>Ts = 28, Open = 100, High = 100, Low = 100, Close = 100, Volume = 1000,
      EMA_F = Some 100, EMA_S = Some 100, RSI = None, Vol_MA = Some 1000\<rparr>
     \<lparr>Ts = 29, Open = 110, High = 110, Low = 110, Close = 110, Volume = 1000,
      EMA_F = Some 102, EMA_S = Some (1110 / 11), RSI = Some 100, Vol_MA = Some 1000\<rparr>"
proof -
  let ?p = "\<lparr>Ts = 28, Open = 100, High = 100, Low = 100, Close = 100, Volume = 1000,
      EMA_F = Some 100, EMA_S = Some 100, RSI = None, Vol_MA = Some (1000::real)\<rparr>"
  let ?l = "\<lparr>Ts = 29, Open = 110, High = 110, Low = 110, Close = 110, Volume = 1000,
      EMA_F = Some 102, EMA_S = Some (1110 / 11), RSI = Some 100, Vol_MA = Some (1000::real)\<rparr>"
  have g: "golden_cross ?p ?l"
    by (simp add: golden_cross_def cell_le_def cell_gt_def)
  with crossover_exclusive [of ?p ?l] show ?thesis by blast
qed

section \<open>Levels, volume ratio and percent change\<close>

text \<open>
  C6. On every table of at least 30 bars that is no shorter than either EMA window,
  which are the tables \<open>analyze_stock\<close> builds a dictionary for, the moving average of the volume at the latest bar is the mean of the last ten
  volumes, and the volume ratio of the dictionary is the latest volume divided by
  it, or exactly 1 when that average is zero, whatever the latest volume. On a table
  shorter than an EMA window the function raises; that is the matter of C3.
\<close>

theorem analyze_stock_volume_ratio:
  assumes "30 \<le> length df" and "ema_f \<le> length df" and "ema_s \<le> length df"
  shows "\<exists>fr i. analyze_stock (Some df) v_chg ema_f ema_s = Inr (Some (fr, i))
     \<and> (let vol_ma = sum_list (map Volume (drop (length df - 10) df)) / 10
        in cell_at (col_Vol_MA fr) (length df - 1) = Some vol_ma
         \<and> vol_ratio i = (if vol_ma = 0 then Some 1 else Some (Volume (last df) / vol_ma)))"
proof -
  from ta_ema_fits [of "map Close df" ema_f] assms(1,2)
  obtain fast where fast: "ta_ema (map Close df) ema_f = Some fast" by auto
  from ta_ema_fits [of "map Close df" ema_s] assms(1,3)
  obtain slow where slow: "ta_ema (map Close df) ema_s = Some slow" by auto
  have "cell_at (ta_sma (map Volume df) 10) (length df - 1) =
      Some (sum_list (map Volume (drop (length df - 10) df)) / 10)"
    using assms(1) ta_sma_last [of 10 "map Volume df"] by (simp add: drop_map)
  then show ?thesis
    using analyze_stock_accepted [OF assms(1) fast slow, of v_chg]
      volume_ratio_last [OF assms(1), of fast slow]
    by (simp add: Let_def add_indicators_def del: One_nat_def)
qed

theorem analyze_stock_volume_ratio_witness:
  "30 \<le> length (series_ending \<lparr>Ts = 29, Open = 100, High = 100, Low = 100, Close = 100, Volume = 3000\<rparr>)
   \<and> 9 \<le> length (series_ending \<lparr>Ts = 29, Open = 100, High = 100, Low = 100, Close = 100, Volume = 3000\<rparr>)
   \<and> 21 \<le> length (series_ending \<lparr>Ts = 29, Open = 100, High = 100, Low = 100, Close = 100, Volume = 3000\<rparr>)
   \<and> (\<exists>fr i. analyze_stock
         (Some (series_ending \<lparr>Ts = 29, Open = 100, High = 100, Low = 100, Close = 100, Volume = 3000\<rparr>))
         0 9 21 = Inr (Some (fr, i))
       \<and> cell_at (col_Vol_MA fr) 29 = Some 1200 \<and> vol_ratio i = Some (5 / 2))
   \<and> 30 \<le> length (silent_series 30) \<and> 9 \<le> length (silent_series 30) \<and> 21 \<le> length (silent_series 30)
   \<and> (\<exists>fr i. analyze_stock (Some (silent_series 30)) 0 9 21 = Inr (Some (fr, i))
       \<and> cell_at (col_Vol_MA fr) 29 = Some 0 \<and> vol_ratio i = Some 1)"
  using analyze_stock_volume_ratio
      [of "series_ending \<lparr>Ts = 29, Open = 100, High = 100, Low = 100, Close = 100, Volume = 3000\<rparr>" 9 21 0]
    analyze_stock_volume_ratio [of "silent_series 30" 9 21 0]
  by (simp add: volume_sum_series_ending volume_sum_silent_series)

text \<open>
  C7. On every table of at least 30 bars that is no shorter than either EMA window,
  which are the tables \<open>analyze_stock\<close> builds a dictionary for, the levels of the dictionary follow the standard pivot formulas on the latest bar:
  with P = (high + low + close) / 3 the resistance is 2P - low and the support is
  2P - high. For high 110, low 90 and close 100 this gives P = 100, resistance 110
  and support 90. On a table shorter than an EMA window the function raises; that
  is the matter of C3.
\<close>

theorem analyze_stock_pivot_levels:
  assumes "30 \<le> length df" and "ema_f \<le> length df" and "ema_s \<le> length df"
  shows "\<exists>fr i. analyze_stock (Some df) v_chg ema_f ema_s = Inr (Some (fr, i))
     \<and> (let high = High (last df); low = Low (last df); close = Close (last df);
            P = (high + low + close) / 3
        in res_1 i = 2 * P - low \<and> sup_1 i = 2 * P - high
         \<and> (high = 110 \<and> low = 90 \<and> close = 100 \<longrightarrow> P = 100 \<and> res_1 i = 110 \<and> sup_1 i = 90))"
proof -
  from ta_ema_fits [of "map Close df" ema_f] assms(1,2)
  obtain fast where fast: "ta_ema (map Close df) ema_f = Some fast" by auto
  from ta_ema_fits [of "map Close df" ema_s] assms(1,3)
  obtain slow where slow: "ta_ema (map Close df) ema_s = Some slow" by auto
  show ?thesis
    using analyze_stock_accepted [OF assms(1) fast slow, of v_chg]
    by (simp add: Let_def)
qed

theorem analyze_stock_pivot_levels_witness:
  "30 \<le> length (series_ending \<lparr>Ts = 29, Open = 100, High = 110, Low = 90, Close = 100, Volume = 1000\<rparr>)
   \<and> 9 \<le> length (series_ending \<lparr>Ts = 29, Open = 100, High = 110, Low = 90, Close = 100, Volume = 1000\<rparr>)
   \<and> 21 \<le> length (series_ending \<lparr>Ts = 29, Open = 100, High = 110, Low = 90, Close = 100, Volume = 1000\<rparr>)
   \<and> (\<exists>fr i. analyze_stock
         (Some (series_ending \<lparr>Ts = 29, Open = 100, High = 110, Low = 90, Close = 100, Volume = 1000\<rparr>))
         0 9 21 = Inr (Some (fr, i))
       \<and> res_1 i = 110 \<and> sup_1 i = 90 \<and> (110 + 90 + 100) / 3 = (100 :: real))"
  using analyze_stock_pivot_levels
      [of "series_ending \<lparr>Ts = 29, Open = 100, High = 110, Low = 90, Close = 100, Volume = 1000\<rparr>" 9 21 0]
  by auto

text \<open>
  C4. On every table of at least 30 bars that is no shorter than either EMA window,
  which are the tables \<open>analyze_stock\<close> builds a dictionary for, and whose latest bar
  has open exactly zero, \<open>analyze_stock\<close> raises nothing and returns its dictionary. Line 73 has no test of its own: the division is one of
  float64 values, which gives a value that is no finite number (and a warning) in
  place of an exception, and that value is the percent change of the dictionary.
\<close>

theorem analyze_stock_zero_open:
  assumes "30 \<le> length df" and "ema_f \<le> length df" and "ema_s \<le> length df"
    and "Open (last df) = 0"
  shows "\<exists>fr i. analyze_stock (Some df) v_chg ema_f ema_s = Inr (Some (fr, i))
     \<and> price i = Close (last df) \<and> chg_pct i = None"
proof -
  from ta_ema_fits [of "map Close df" ema_f] assms(1,2)
  obtain fast where fast: "ta_ema (map Close df) ema_f = Some fast" by auto
  from ta_ema_fits [of "map Close df" ema_s] assms(1,3)
  obtain slow where slow: "ta_ema (map Close df) ema_s = Some slow" by auto
  show ?thesis
    using analyze_stock_accepted [OF assms(1) fast slow, of v_chg] assms(4)
    by (simp add: Let_def np_div_def cell_times_def)
qed

theorem analyze_stock_zero_open_witness:
  "30 \<le> length (series_ending \<lparr>Ts = 29, Open = 0, High = 100, Low = 0, Close = 100, Volume = 1000\<rparr>)
   \<and> 9 \<le> length (series_ending \<lparr>Ts = 29, Open = 0, High = 100, Low = 0, Close = 100, Volume = 1000\<rparr>)
   \<and> 21 \<le> length (series_ending \<lparr>Ts = 29, Open = 0, High = 100, Low = 0, Close = 100, Volume = 1000\<rparr>)
   \<and> Open (last (series_ending \<lparr>Ts = 29, Open = 0, High = 100, Low = 0, Close = 100, Volume = 1000\<rparr>)) = 0
   \<and> (\<exists>fr i. analyze_stock
         (Some (series_ending \<lparr>Ts = 29, Open = 0, High = 100, Low = 0, Close = 100, Volume = 1000\<rparr>))
         0 9 21 = Inr (Some (fr, i))
       \<and> price i = 100 \<and> chg_pct i = None)"
  using analyze_stock_zero_open
      [of "series_ending \<lparr>Ts = 29, Open = 0, High = 100, Low = 0, Close = 100, Volume = 1000\<rparr>" 9 21 0]
  by simp

section \<open>The volatility index\<close>

lemma nth_prev_butlast:
  assumes "2 \<le> length xs"
  shows "xs ! (length xs - 2) = last (butlast xs)"
proof -
  from assms have ne: "butlast xs \<noteq> []" by (simp flip: length_0_conv)
  from assms have i: "length (butlast xs) - 1 = length xs - 2" "length xs - 2 < length (butlast xs)"
    by simp_all
  have "last (butlast xs) = butlast xs ! (length xs - 2)"
    using last_conv_nth [OF ne] i(1) by simp
  also have "\<dots> = xs ! (length xs - 2)"
    using i(2) by (rule nth_butlast)
  finally show ?thesis by simp
qed

lemma get_vix_status_two_bars:
  assumes "fetch_data d = Some vix" "2 \<le> length vix"
  shows "get_vix_status d = Inr (Close (last vix), Close (last vix) - Close (last (butlast vix)))"
proof -
  from assms(2) have ne: "map Close vix \<noteq> []" and l2: "2 \<le> length (map Close vix)" by auto
  have l: "iloc (map Close vix) (- 1) = Inr (Close (last vix))"
    using iloc_last [OF ne] ne by (simp add: last_map)
  have "map Close vix ! (length vix - 2) = Close (vix ! (length vix - 2))"
    using assms(2) by (intro nth_map) arith
  then have p: "iloc (map Close vix) (- 2) = Inr (Close (last (butlast vix)))"
    using iloc_prev [OF l2] nth_prev_butlast [OF assms(2)] by simp
  have n: "\<not> length vix < 2" using assms(2) by simp
  show ?thesis
    unfolding get_vix_status_def assms(1) by (simp only: option.case n if_False l p sum.case)
qed

text \<open>
  C8. \<open>get_vix_status\<close> returns exactly the pair (20.0, 0.0) when the fetched series
  of the index is absent or has fewer than 2 bars; otherwise it returns the latest
  close and the latest close minus the close before it, and raises nothing.
\<close>

theorem get_vix_status_fallback:
  "(fetch_data d = None \<longrightarrow> get_vix_status d = Inr (20, 0))
   \<and> (\<forall>vix. fetch_data d = Some vix \<and> length vix < 2 \<longrightarrow> get_vix_status d = Inr (20, 0))
   \<and> (\<forall>vix. fetch_data d = Some vix \<and> 2 \<le> length vix \<longrightarrow>
        get_vix_status d = Inr (Close (last vix), Close (last vix) - Close (last (butlast vix))))"
proof (intro conjI allI impI)
  assume "fetch_data d = None"
  then show "get_vix_status d = Inr (20, 0)" by (simp add: get_vix_status_def)
next
  fix vix assume "fetch_data d = Some vix \<and> length vix < 2"
  then show "get_vix_status d = Inr (20, 0)" by (simp add: get_vix_status_def)
next
  fix vix assume "fetch_data d = Some vix \<and> 2 \<le> length vix"
  then show "get_vix_status d = Inr (Close (last vix), Close (last vix) - Close (last (butlast vix)))"
    using get_vix_status_two_bars by blast
qed

theorem get_vix_status_fallback_witness:
  "get_vix_status Raised = Inr (20, 0)
   \<and> get_vix_status (Table []) = Inr (20, 0)
   \<and> get_vix_status (Table [flat_bar 0]) = Inr (20, 0)
   \<and> get_vix_status (Table [\<lparr>Ts = 0, Open = 18, High = 18, Low = 18, Close = 18, Volume = 0\<rparr>,
                             \<lparr>Ts = 1, Open = 18, High = 20, Low = 18, Close = 39 / 2, Volume = 0\<rparr>])
       = Inr (39 / 2, 3 / 2)"
  using get_vix_status_fallback [of Raised] get_vix_status_fallback [of "Table []"]
    get_vix_status_fallback [of "Table [flat_bar 0]"]
    get_vix_status_fallback [of "Table [\<lparr>Ts = 0, Open = 18, High = 18, Low = 18, Close = 18, Volume = 0\<rparr>,
                             \<lparr>Ts = 1, Open = 18, High = 20, Low = 18, Close = 39 / 2, Volume = 0\<rparr>]"]
  by (simp add: fetch_data_def)

section \<open>Ranges of the index and the volume ratio\<close>

text \<open>With volumes that are not negative, neither the average nor the ratio is.\<close>

lemma volume_ratio_nonneg:
  assumes "30 \<le> length df" "list_all (\<lambda>b. 0 \<le> Volume b) df"
  shows "\<exists>q. volume_ratio (row_at (add_indicators df f s) (length df - 1)) = Some q \<and> 0 \<le> q"
proof -
  from assms(1) have ne: "df \<noteq> []" by auto
  have "0 \<le> Volume (last df)"
    using last_in_list_all [OF ne assms(2)] .
  moreover have "0 \<le> sum_list (map Volume (drop (length df - 10) df))"
    using assms(2) by (intro sum_list_nonneg) (auto simp: list_all_iff dest: in_set_dropD)
  ultimately show ?thesis
    using volume_ratio_last [OF assms(1), of f s] by simp
qed

text \<open>The index column at the latest bar of an accepted table.\<close>

lemma rsi_last_cases:
  assumes "30 \<le> length df"
  shows "if (\<forall>b\<in>set df. Close b = Close (hd df))
         then cell_at (ta_rsi (map Close df) 14) (length df - 1) = None
         else (\<exists>r. cell_at (ta_rsi (map Close df) 14) (length df - 1) = Some r \<and> 0 \<le> r \<and> r \<le> 100)"
proof -
  from assms have ne: "df \<noteq> []" by auto
  have n: "(1::nat) < 14" "14 < length (map Close df)" using assms by simp_all
  have len: "length (map Close df) - 1 = length df - 1" by simp
  have flat: "(\<forall>x\<in>set (map Close df). x = hd (map Close df)) = (\<forall>b\<in>set df. Close b = Close (hd df))"
    using ne by (simp add: hd_map)
  show ?thesis
    using ta_rsi_last_cases [OF n] unfolding len flat .
qed

lemma analyze_stock_rsi_cell:
  assumes "30 \<le> length df" and "ema_f \<le> length df" and "ema_s \<le> length df"
  shows "\<exists>fast slow i.
       analyze_stock (Some df) v_chg ema_f ema_s = Inr (Some (add_indicators df fast slow, i))
     \<and> rsi i = cell_at (ta_rsi (map Close df) 14) (length df - 1)
     \<and> vol_ratio i = volume_ratio (row_at (add_indicators df fast slow) (length df - 1))"
proof -
  from ta_ema_fits [of "map Close df" ema_f] assms(1,2)
  obtain fast where fast: "ta_ema (map Close df) ema_f = Some fast" by auto
  from ta_ema_fits [of "map Close df" ema_s] assms(1,3)
  obtain slow where slow: "ta_ema (map Close df) ema_s = Some slow" by auto
  show ?thesis
    using analyze_stock_accepted [OF assms(1) fast slow, of v_chg]
    by (simp add: Let_def add_indicators_def del: One_nat_def)
qed

text \<open>
  C9, as amended. On every table of at least 30 bars with strictly increasing time
  stamps, volumes that are not negative and a fast EMA shorter than the slow one,
  the slow window being shorter than the table, \<open>analyze_stock\<close> returns a
  dictionary whose volume ratio is defined and at least 0, and whose RSI lies
  between 0 and 100 when some close differs from the first one, and is undefined
  (NaN) when all closes are equal. Tables no longer than the slow window are left
  out: they are the matter of C3.
\<close>

theorem analyze_stock_rsi_volume_ranges:
  assumes "30 \<le> length df" and "ema_f < ema_s" and "ema_s < length df"
    and "sorted_wrt (<) (map Ts df)" and "list_all (\<lambda>b. 0 \<le> Volume b) df"
  shows "\<exists>fr i. analyze_stock (Some df) v_chg ema_f ema_s = Inr (Some (fr, i))
     \<and> (\<exists>q. vol_ratio i = Some q \<and> 0 \<le> q)
     \<and> (if (\<forall>b\<in>set df. Close b = Close (hd df)) then rsi i = None
         else (\<exists>r. rsi i = Some r \<and> 0 \<le> r \<and> r \<le> 100))"
proof -
  from assms(2,3) have fits: "ema_f \<le> length df" "ema_s \<le> length df" by simp_all
  obtain fast slow i
    where run: "analyze_stock (Some df) v_chg ema_f ema_s = Inr (Some (add_indicators df fast slow, i))"
    and r: "rsi i = cell_at (ta_rsi (map Close df) 14) (length df - 1)"
    and v: "vol_ratio i = volume_ratio (row_at (add_indicators df fast slow) (length df - 1))"
    using analyze_stock_rsi_cell [OF assms(1) fits, of v_chg] by blast
  have "\<exists>q. vol_ratio i = Some q \<and> 0 \<le> q"
    using volume_ratio_nonneg [OF assms(1) assms(5), of fast slow] v by simp
  moreover have "if (\<forall>b\<in>set df. Close b = Close (hd df)) then rsi i = None
         else (\<exists>r. rsi i = Some r \<and> 0 \<le> r \<and> r \<le> 100)"
    using rsi_last_cases [OF assms(1)] unfolding r .
  ultimately show ?thesis using run by blast
qed

text \<open>A flat series that gaps up at the latest bar has a defined index.\<close>

theorem analyze_stock_rsi_volume_ranges_witness:
  "30 \<le> length (series_ending \<lparr>Ts = 29, Open = 110, High = 110, Low = 110, Close = 110, Volume = 1000\<rparr>)
   \<and> (9::nat) < 21
   \<and> 21 < length (series_ending \<lparr>Ts = 29, Open = 110, High = 110, Low = 110, Close = 110, Volume = 1000\<rparr>)
   \<and> sorted_wrt (<)
        (map Ts (series_ending \<lparr>Ts = 29, Open = 110, High = 110, Low = 110, Close = 110, Volume = 1000\<rparr>))
   \<and> list_all (\<lambda>b. 0 \<le> Volume b)
        (series_ending \<lparr>Ts = 29, Open = 110, High = 110, Low = 110, Close = 110, Volume = 1000\<rparr>)
   \<and> (\<exists>fr i. analyze_stock
         (Some (series_ending \<lparr>Ts = 29, Open = 110, High = 110, Low = 110, Close = 110, Volume = 1000\<rparr>))
         0 9 21 = Inr (Some (fr, i))
       \<and> (\<exists>q. vol_ratio i = Some q \<and> 0 \<le> q)
       \<and> (\<exists>r. rsi i = Some r \<and> 0 \<le> r \<and> r \<le> 100))"
proof -
  let ?s = "series_ending \<lparr>Ts = 29, Open = 110, High = 110, Low = 110, Close = 110, Volume = 1000\<rparr>"
  have len: "30 \<le> length ?s" by simp
  have win: "(9::nat) < 21" "21 < length ?s" by simp_all
  have ts: "sorted_wrt (<) (map Ts ?s)"
    by (rule sorted_series_ending) simp
  have vol: "list_all (\<lambda>b. 0 \<le> Volume b) ?s"
    using flat_series_volumes [of 29] by (simp add: series_ending_def)
  have moving: "\<not> (\<forall>b\<in>set ?s. Close b = Close (hd ?s))"
    by (simp add: set_series_ending flat_bar_def)
  from analyze_stock_rsi_volume_ranges [OF len win ts vol, of 0]
  obtain fr i where run: "analyze_stock (Some ?s) 0 9 21 = Inr (Some (fr, i))"
    and ratio: "\<exists>q. vol_ratio i = Some q \<and> 0 \<le> q"
    and index: "if (\<forall>b\<in>set ?s. Close b = Close (hd ?s)) then rsi i = None
         else (\<exists>r. rsi i = Some r \<and> 0 \<le> r \<and> r \<le> 100)"
    by blast
  from index moving have "\<exists>r. rsi i = Some r \<and> 0 \<le> r \<and> r \<le> 100"
    by (simp only: if_False)
  with run ratio len win ts vol show ?thesis by blast
qed

text \<open>
  C9 as the spec states it fails on a series without any price change: 30 bars with
  increasing time stamps, the lengths 9 and 21 and positive volumes give a dictionary
  whose RSI is undefined, so it does not lie between 0 and 100.
\<close>

theorem analyze_stock_rsi_flat_series:
  "30 \<le> length (flat_series 30) \<and> sorted_wrt (<) (map Ts (flat_series 30)) \<and> (9::nat) < 21
   \<and> 21 < length (flat_series 30)
   \<and> list_all (\<lambda>b. 0 \<le> Volume b) (flat_series 30)
   \<and> (\<exists>fr i. analyze_stock (Some (flat_series 30)) 0 9 21 = Inr (Some (fr, i)) \<and> rsi i = None)
   \<and> \<not> (\<exists>fr i r. analyze_stock (Some (flat_series 30)) 0 9 21 = Inr (Some (fr, i))
          \<and> rsi i = Some r \<and> 0 \<le> r \<and> r \<le> 100)"
proof -
  have len: "30 \<le> length (flat_series 30)" by simp
  have flat: "\<forall>b\<in>set (flat_series 30). Close b = Close (hd (flat_series 30))"
    by (simp add: flat_series_def flat_bar_def upt_rec [of 0 30])
  have cell: "cell_at (ta_rsi (map Close (flat_series 30)) 14) (length (flat_series 30) - 1) = None"
    using rsi_last_cases [OF len] flat by (simp only: if_True)
  obtain fr i where run: "analyze_stock (Some (flat_series 30)) 0 9 21 = Inr (Some (fr, i))"
    and r: "rsi i = None"
    using analyze_stock_rsi_cell [OF len, of 9 21 0] cell by auto
  have "\<exists>fr i. analyze_stock (Some (flat_series 30)) 0 9 21 = Inr (Some (fr, i)) \<and> rsi i = None"
    using run r by blast
  moreover have "\<not> (\<exists>fr i r. analyze_stock (Some (flat_series 30)) 0 9 21 = Inr (Some (fr, i))
          \<and> rsi i = Some r \<and> 0 \<le> r \<and> r \<le> 100)"
    using run r by auto
  ultimately show ?thesis
    using len flat_series_sorted [of 30] flat_series_volumes [of 30] by simp
qed

section \<open>The fixed floor\<close>

lemma cell_cmp_None:
  "cell_gt a None = False" "cell_lt a None = False" "cell_le a None = False" "cell_ge a None = False"
  by (simp_all add: cell_gt_def cell_lt_def cell_le_def cell_ge_def split: option.splits)

text \<open>
  C3. The spec asks for at least max(slow, 14, 10) + 1 bars before a dictionary is
  built. The test of line 42 compares the length with the constant 30 only, while
  the slider of line 88 offers slow windows up to 60. On a table of 30 bars and a
  slow window of 30, where 31 bars are asked for, \<open>analyze_stock\<close> builds a
  dictionary: the slow EMA of the previous bar is undefined, both crossover tests
  compare with NaN and are false, and the alert is computed all the same. On the
  same table and a slow window of 40 it raises TypeError in place of returning the
  pair \<^verbatim>\<open>(None, None)\<close>.
\<close>

theorem analyze_stock_floor_fixed_at_30:
  "length (flat_series 30) = 30 \<and> (30::nat) < max 30 (max 14 10) + 1
   \<and> (\<exists>fr i. analyze_stock (Some (flat_series 30)) 0 9 30 = Inr (Some (fr, i))
         \<and> cell_at (col_EMA_S fr) 28 = None \<and> cell_at (col_EMA_S fr) 29 = Some 100
         \<and> trend i = '' Bearish'' \<and> msg i = msg_near_resistance \<and> level i = ''warning'')
   \<and> analyze_stock (Some (flat_series 30)) 0 9 40 = Inl TypeError"
proof -
  have len: "30 \<le> length (flat_series 30)" by simp
  have fast: "ta_ema (map Close (flat_series 30)) 9 = Some (replicate 8 None @ replicate 22 (Some 100))"
    using ta_ema_flat [of 9 30 100] by simp
  have slow: "ta_ema (map Close (flat_series 30)) 30 = Some (replicate 29 None @ [Some 100])"
    using ta_ema_flat [of 30 30 100] by simp
  have none: "ta_ema (map Close (flat_series 30)) 9 = None \<or> ta_ema (map Close (flat_series 30)) 40 = None"
    using ta_ema_too_short [of 30 40 100] by simp
  have cells: "cell_at (replicate 29 None @ [Some (100::real)]) 28 = None"
    "cell_at (replicate 29 None @ [Some (100::real)]) 29 = Some 100"
    "cell_at (replicate 8 None @ replicate 22 (Some (100::real))) 28 = Some 100"
    "cell_at (replicate 8 None @ replicate 22 (Some (100::real))) 29 = Some 100"
    by (simp_all add: cell_at_def nth_append)
  have bar: "last (flat_series 30) = flat_bar 29"
    using last_flat_series [of 30] by simp
  have "\<exists>fr i. analyze_stock (Some (flat_series 30)) 0 9 30 = Inr (Some (fr, i))
         \<and> cell_at (col_EMA_S fr) 28 = None \<and> cell_at (col_EMA_S fr) 29 = Some 100
         \<and> trend i = '' Bearish'' \<and> msg i = msg_near_resistance \<and> level i = ''warning''"
    using analyze_stock_accepted [OF len fast slow, of 0]
    by (simp add: Let_def add_indicators_def cells bar flat_bar_def alert_signal_def
          golden_cross_def death_cross_def cell_cmp_None cell_gt_def)
  moreover have "analyze_stock (Some (flat_series 30)) 0 9 40 = Inl TypeError"
    using analyze_stock_no_column [OF len none] .
  ultimately show ?thesis by simp
qed

end
